theory Spec2Isabelle
  imports Complex_Main "HOL-Library.Log_Nat"
begin

section \<open>Errors raised by the modelled code\<close>

text \<open>
  Every \<open>throw\<close> of the source and every rejected promise of a collaborator is a value:
  \<open>InsufficientLiquidity\<close> is \<open>new Error('Insufficient liquidity')\<close> of
  packages/core/src/math.ts, \<open>RangeError\<close> is what a BigInt division by zero and
  \<open>BigInt\<close> of a fractional number raise, \<open>DatabaseError\<close> is a rejected database
  promise and \<open>ProviderError\<close> a rejected provider query.
\<close>

datatype error = InsufficientLiquidity | RangeError | DatabaseError | ProviderError

section \<open>AMM math (packages/core/src/math.ts)\<close>

text \<open>
  A \<open>bigint\<close> is an unbounded \<open>int\<close>. The \<open>/\<close> of BigInt truncates towards zero and
  raises a RangeError on a zero divisor; \<open>BigInt(x)\<close> of a JavaScript number raises a
  RangeError unless \<open>x\<close> is a whole number.
\<close>

definition bigint_div :: "int \<Rightarrow> int \<Rightarrow> error + int" where
  "bigint_div a b =
     (if b = 0 then Inl RangeError else Inr (sgn a * sgn b * (\<bar>a\<bar> div \<bar>b\<bar>)))"

definition BigInt :: "real \<Rightarrow> error + int" where
  "BigInt x = (if real_of_int \<lfloor>x\<rfloor> = x then Inr \<lfloor>x\<rfloor> else Inl RangeError)"

definition getAmountOut :: "int \<Rightarrow> int \<Rightarrow> int \<Rightarrow> real \<Rightarrow> error + int" where
  "getAmountOut amountIn reserveIn reserveOut feeBps =
     (if amountIn = 0 \<or> reserveIn = 0 \<or> reserveOut = 0 then Inr 0
      else
        (case BigInt (10000 - feeBps) of
           Inl e \<Rightarrow> Inl e
         | Inr feeFactor \<Rightarrow>
             (let amountInWithFee = amountIn * feeFactor;
                  numerator = amountInWithFee * reserveOut;
                  denominator = reserveIn * 10000 + amountInWithFee
              in bigint_div numerator denominator)))"

definition getAmountIn :: "int \<Rightarrow> int \<Rightarrow> int \<Rightarrow> real \<Rightarrow> error + int" where
  "getAmountIn amountOut reserveIn reserveOut feeBps =
     (if amountOut = 0 \<or> reserveIn = 0 \<or> reserveOut = 0 then Inr 0
      else if amountOut \<ge> reserveOut then Inl InsufficientLiquidity
      else
        (case BigInt (10000 - feeBps) of
           Inl e \<Rightarrow> Inl e
         | Inr feeFactor \<Rightarrow>
             (let numerator = reserveIn * amountOut * 10000;
                  denominator = (reserveOut - amountOut) * feeFactor
              in (case bigint_div numerator denominator of
                    Inl e \<Rightarrow> Inl e
                  | Inr q \<Rightarrow> Inr (q + 1)))))"

section \<open>JavaScript numbers\<close>

text \<open>
  Where a result depends on how a \<open>number\<close> is rounded (the array index of
  \<open>calculateVaR\<close>, the gas limit and the cost of the gas estimator) the arithmetic is
  IEEE 754 binary64, as the engine computes it: a finite double is the real it denotes,
  and an operation returns the exact result rounded to the nearest double, ties to the
  even significand. The two zeros are one value. The money amounts of the risk
  controller and of the Kelly sizer are idealised as reals.

  \<open>exponent2 x\<close> is the floor of the binary logarithm of a positive \<open>x\<close>, computed on
  integers. \<open>binary64 x\<close> rounds to 53 significant bits, and to the fixed spacing of
  the subnormals below 2 to the power -1022; \<open>round64\<close> adds the overflow to an infinity.
\<close>

datatype number = Finite real | PosInfinity | NegInfinity | NaN

definition exponent2 :: "real \<Rightarrow> int" where
  "exponent2 x = (if 1 \<le> x then bitlen \<lfloor>x\<rfloor> - 1 else - bitlen (\<lceil>1 / x\<rceil> - 1))"

definition roundEven :: "real \<Rightarrow> int" where
  "roundEven q =
     (let f = \<lfloor>q\<rfloor>; r = q - real_of_int f
      in if r < 1 / 2 then f
         else if r > 1 / 2 then f + 1
         else if even f then f else f + 1)"

definition binary64 :: "real \<Rightarrow> real" where
  "binary64 x =
     (if x = 0 then 0
      else (let e = max (exponent2 \<bar>x\<bar>) (- 1022) - 52
            in real_of_int (roundEven (x / 2 powi e)) * 2 powi e))"

definition round64 :: "real \<Rightarrow> number" where
  "round64 x =
     (let r = binary64 x
      in if r \<ge> 2 ^ 1024 then PosInfinity
         else if r \<le> - (2 ^ 1024) then NegInfinity
         else Finite r)"

definition signed_infinity :: "bool \<Rightarrow> number" where
  "signed_infinity negative = (if negative then NegInfinity else PosInfinity)"


fun number_times :: "number \<Rightarrow> number \<Rightarrow> number" where
  "number_times NaN b = NaN"
| "number_times a NaN = NaN"
| "number_times (Finite x) (Finite y) = round64 (x * y)"
| "number_times (Finite x) PosInfinity = (if x = 0 then NaN else signed_infinity (x < 0))"
| "number_times (Finite x) NegInfinity = (if x = 0 then NaN else signed_infinity (0 < x))"
| "number_times PosInfinity (Finite y) = (if y = 0 then NaN else signed_infinity (y < 0))"
| "number_times NegInfinity (Finite y) = (if y = 0 then NaN else signed_infinity (0 < y))"
| "number_times PosInfinity PosInfinity = PosInfinity"
| "number_times PosInfinity NegInfinity = NegInfinity"
| "number_times NegInfinity PosInfinity = NegInfinity"
| "number_times NegInfinity NegInfinity = PosInfinity"

text \<open>\<open>Math.floor\<close>: the floor of a finite double is a double; the rest is returned as is.\<close>

fun Math_floor :: "number \<Rightarrow> number" where
  "Math_floor (Finite x) = Finite (real_of_int \<lfloor>x\<rfloor>)"
| "Math_floor n = n"

text \<open>\<open>BigInt(n)\<close> of a number: a RangeError unless \<open>n\<close> is a finite whole number.\<close>

fun BigInt_number :: "number \<Rightarrow> error + int" where
  "BigInt_number (Finite x) = BigInt x"
| "BigInt_number n = Inl RangeError"

section \<open>Gas estimation (the gas module of packages/core)\<close>

text \<open>
  \<open>FeeData\<close> is what \<open>provider.getFeeData()\<close> resolves to; a missing (\<open>null\<close>) field is
  \<open>None\<close>. The provider query itself is a value \<open>error + FeeData\<close>: \<open>Inl\<close> when the
  promise rejects.
\<close>

record FeeData =
  feeGasPrice :: "int option"
  feeMaxFeePerGas :: "int option"
  feeMaxPriorityFeePerGas :: "int option"

record GasEstimate =
  gasLimit :: int
  maxFeePerGas :: int
  maxPriorityFeePerGas :: int
  estimatedCostWei :: int
  estimatedCostUsd :: number

definition gwei :: int where
  "gwei = 10 ^ 9"

definition ether :: int where
  "ether = 10 ^ 18"

text \<open>\<open>x || d\<close> on \<open>bigint | null\<close>: \<open>null\<close> and \<open>0n\<close> are both falsy.\<close>

definition orElse :: "int option \<Rightarrow> int \<Rightarrow> int" where
  "orElse x d = (case x of None \<Rightarrow> d | Some v \<Rightarrow> (if v = 0 then d else v))"

text \<open>
  \<open>ethers.formatEther(wei)\<close> is the exact decimal string of \<open>wei / 10 ^ 18\<close>, and \<open>Number\<close> of
  a decimal string is the nearest double.
\<close>

definition formatEther :: "int \<Rightarrow> real" where
  "formatEther wei = real_of_int wei / real_of_int ether"

definition Number_string :: "real \<Rightarrow> number" where
  "Number_string decimal = round64 decimal"

text \<open>
  The body of the \<open>try\<close> block: it raises what the provider raises, and the RangeError of
  \<open>BigInt\<close> when the multiplied gas limit is not a finite number.
\<close>

definition estimateArbitrageGas_try ::
  "error + FeeData \<Rightarrow> number \<Rightarrow> number \<Rightarrow> error + GasEstimate" where
  "estimateArbitrageGas_try getFeeData ethPriceUsd multiplier =
     (case getFeeData of
        Inl e \<Rightarrow> Inl e
      | Inr feeData \<Rightarrow>
          (let baseGasLimit = (350000 :: int) in
           case BigInt_number
                  (Math_floor (number_times (Finite (real_of_int baseGasLimit)) multiplier)) of
             Inl e \<Rightarrow> Inl e
           | Inr gasLimit' \<Rightarrow>
               (let maxFeePerGas' = orElse (feeMaxFeePerGas feeData) (30 * gwei);
                    maxPriorityFeePerGas' = orElse (feeMaxPriorityFeePerGas feeData) (2 * gwei);
                    estimatedCostWei' = gasLimit' * maxFeePerGas';
                    estimatedCostEth = Number_string (formatEther estimatedCostWei');
                    estimatedCostUsd' = number_times estimatedCostEth ethPriceUsd
                in Inr \<lparr> gasLimit = gasLimit',
                         maxFeePerGas = maxFeePerGas',
                         maxPriorityFeePerGas = maxPriorityFeePerGas',
                         estimatedCostWei = estimatedCostWei',
                         estimatedCostUsd = estimatedCostUsd' \<rparr>)))"

text \<open>The \<open>catch\<close> block swallows every error of the body and returns the fallback.\<close>

definition estimateArbitrageGas :: "error + FeeData \<Rightarrow> number \<Rightarrow> number \<Rightarrow> GasEstimate" where
  "estimateArbitrageGas getFeeData ethPriceUsd multiplier =
     (case estimateArbitrageGas_try getFeeData ethPriceUsd multiplier of
        Inr estimate \<Rightarrow> estimate
      | Inl e \<Rightarrow>
          \<lparr> gasLimit = 400000,
            maxFeePerGas = 50 * gwei,
            maxPriorityFeePerGas = 2 * gwei,
            estimatedCostWei = 2 * ether div 100,
            estimatedCostUsd = Finite 40 \<rparr>)"

section \<open>Risk analytics (packages/risk/src/limits.ts)\<close>

definition calculateKellyPositionSize :: "real \<Rightarrow> real \<Rightarrow> real \<Rightarrow> real \<Rightarrow> real" where
  "calculateKellyPositionSize totalCapital winProbability avgWinAmount avgLossAmount =
     (if avgLossAmount = 0 \<or> winProbability = 0 then 0
      else
        (let kellyFraction =
               (winProbability * avgWinAmount - (1 - winProbability) * avgLossAmount)
                 / avgLossAmount;
             cappedFraction = max 0 (min (1 / 10) kellyFraction)
         in totalCapital * cappedFraction))"


section \<open>Risk controller (packages/risk/src/controls.ts)\<close>

record RiskLimits =
  maxDailyLossUsd :: real
  maxNotionalUsd :: real
  maxTradesPerHour :: real
  maxConsecutiveLosses :: real
  cooldownAfterLossMs :: real
  minTimeBetweenTradesMs :: real

text \<open>
  A \<open>Date\<close> is its epoch time in milliseconds, \<open>Date | null\<close> an option. The two counters
  only ever hold counts, so they are naturals.
\<close>

record RiskState =
  isKilled :: bool
  dailyPnl :: real
  tradesInLastHour :: nat
  consecutiveLosses :: nat
  lastTradeTime :: "int option"
  lastLossTime :: "int option"
  killReason :: "string option"

text \<open>The fields of \<open>Trade\<close> that the risk controller reads.\<close>

record Trade =
  timestamp :: int
  actualProfitUsd :: real

text \<open>
  What one call observes of its collaborators: \<open>getDailyStats\<close> is the \<open>dailyPnl\<close> of the
  statistics the database resolves to, \<open>getRecentTrades n\<close> the trades it returns for the
  limit \<open>n\<close> (most recent first), each \<open>Inl\<close> when the promise rejects;
  \<open>recordRiskEvent ty\<close> tells whether writing an event of type \<open>ty\<close> succeeds; \<open>now k\<close> is
  the clock reading at the \<open>k\<close>-th place of the method that reads the clock.
\<close>

record Env =
  getDailyStats :: "error + real"
  getRecentTrades :: "nat \<Rightarrow> error + Trade list"
  recordRiskEvent :: "string \<Rightarrow> bool"
  now :: "nat \<Rightarrow> int"

record RiskManager =
  state :: RiskState
  limits :: RiskLimits

text \<open>The constructor, before the asynchronous \<open>initializeState\<close> has run.\<close>

definition RiskManager_new :: "real \<Rightarrow> real \<Rightarrow> RiskManager" where
  "RiskManager_new MAX_DAILY_LOSS_USD MAX_NOTIONAL_USD =
     \<lparr> state = \<lparr> isKilled = False, dailyPnl = 0, tradesInLastHour = 0,
                 consecutiveLosses = 0, lastTradeTime = None, lastLossTime = None,
                 killReason = None \<rparr>,
       limits = \<lparr> maxDailyLossUsd = MAX_DAILY_LOSS_USD,
                  maxNotionalUsd = MAX_NOTIONAL_USD,
                  maxTradesPerHour = 100,
                  maxConsecutiveLosses = 5,
                  cooldownAfterLossMs = 60000,
                  minTimeBetweenTradesMs = 5000 \<rparr> \<rparr>"

text \<open>The loop with its \<open>break\<close> at the first profitable trade.\<close>

fun countLeadingLosses :: "Trade list \<Rightarrow> nat" where
  "countLeadingLosses [] = 0"
| "countLeadingLosses (trade # trades) =
     (if actualProfitUsd trade \<le> 0 then Suc (countLeadingLosses trades) else 0)"

definition calculateConsecutiveLosses :: "Trade list \<Rightarrow> RiskManager \<Rightarrow> RiskManager" where
  "calculateConsecutiveLosses trades m =
     m\<lparr>state := (state m)\<lparr>consecutiveLosses := countLeadingLosses trades\<rparr>\<rparr>"

definition initializeState :: "Env \<Rightarrow> RiskManager \<Rightarrow> RiskManager" where
  "initializeState env m =
     (case getDailyStats env of
        Inl e \<Rightarrow> m
      | Inr pnl \<Rightarrow>
          (let m1 = m\<lparr>state := (state m)\<lparr>dailyPnl := pnl\<rparr>\<rparr>
           in case getRecentTrades env 10 of
                Inl e \<Rightarrow> m1
              | Inr recentTrades \<Rightarrow> calculateConsecutiveLosses recentTrades m1))"

definition updateDailyPnl :: "Env \<Rightarrow> RiskManager \<Rightarrow> RiskManager" where
  "updateDailyPnl env m =
     (case getDailyStats env of
        Inl e \<Rightarrow> m
      | Inr pnl \<Rightarrow> m\<lparr>state := (state m)\<lparr>dailyPnl := pnl\<rparr>\<rparr>)"

definition updateTradeCount :: "Env \<Rightarrow> RiskManager \<Rightarrow> RiskManager" where
  "updateTradeCount env m =
     (let oneHourAgo = now env 2 - 60 * 60 * 1000
      in case getRecentTrades env 1000 of
           Inl e \<Rightarrow> m
         | Inr recentTrades \<Rightarrow>
             m\<lparr>state := (state m)\<lparr>tradesInLastHour :=
                  length (filter (\<lambda>trade. timestamp trade > oneHourAgo) recentTrades)\<rparr>\<rparr>)"

text \<open>
  \<open>killSwitch\<close> sets the flag and the reason first and awaits the event write after: a
  failed write rejects the call with the state already changed.
\<close>

definition killSwitch :: "Env \<Rightarrow> string \<Rightarrow> RiskManager \<Rightarrow> (error + unit) \<times> RiskManager" where
  "killSwitch env reason m =
     (let m1 = m\<lparr>state := (state m)\<lparr>isKilled := True, killReason := Some reason\<rparr>\<rparr>
      in (if recordRiskEvent env ''kill_switch'' then Inr () else Inl DatabaseError, m1))"

definition resetKillSwitch :: "Env \<Rightarrow> RiskManager \<Rightarrow> (error + unit) \<times> RiskManager" where
  "resetKillSwitch env m =
     (let m1 = m\<lparr>state := (state m)\<lparr>isKilled := False, killReason := None\<rparr>\<rparr>
      in (if recordRiskEvent env ''kill_switch_reset'' then Inr () else Inl DatabaseError, m1))"

definition shouldStop :: "Env \<Rightarrow> RiskManager \<Rightarrow> bool \<times> RiskManager" where
  "shouldStop env m = (let m1 = updateDailyPnl env m in (isKilled (state m1), m1))"

definition canTrade :: "Env \<Rightarrow> real \<Rightarrow> real \<Rightarrow> RiskManager \<Rightarrow> (error + bool) \<times> RiskManager" where
  "canTrade env amountUsd expectedProfitUsd m =
     (if isKilled (state m) then (Inr False, m)
      else if amountUsd > maxNotionalUsd (limits m) then (Inr False, m)
      else
        (let m1 = updateDailyPnl env m;
             potentialDailyLoss = \<bar>min 0 (dailyPnl (state m1) + expectedProfitUsd)\<bar>
         in if potentialDailyLoss > maxDailyLossUsd (limits m1)
            then (case killSwitch env ''Daily loss limit would be exceeded'' m1 of
                    (Inl e, m2) \<Rightarrow> (Inl e, m2)
                  | (Inr u, m2) \<Rightarrow> (Inr False, m2))
            else if real (consecutiveLosses (state m1)) \<ge> maxConsecutiveLosses (limits m1)
            then (Inr False, m1)
            else if (case lastLossTime (state m1) of
                       None \<Rightarrow> False
                     | Some t \<Rightarrow> real_of_int (now env 0 - t) < cooldownAfterLossMs (limits m1))
            then (Inr False, m1)
            else if (case lastTradeTime (state m1) of
                       None \<Rightarrow> False
                     | Some t \<Rightarrow> real_of_int (now env 1 - t) < minTimeBetweenTradesMs (limits m1))
            then (Inr False, m1)
            else
              (let m2 = updateTradeCount env m1
               in if real (tradesInLastHour (state m2)) \<ge> maxTradesPerHour (limits m2)
                  then (Inr False, m2)
                  else (Inr True, m2))))"

definition recordTrade :: "Env \<Rightarrow> Trade \<Rightarrow> RiskManager \<Rightarrow> (error + unit) \<times> RiskManager" where
  "recordTrade env trade m =
     (let m1 = m\<lparr>state := (state m)\<lparr>lastTradeTime := Some (now env 0)\<rparr>\<rparr>;
          m2 = m1\<lparr>state := (state m1)\<lparr>dailyPnl := dailyPnl (state m1) + actualProfitUsd trade\<rparr>\<rparr>;
          m3 = (if actualProfitUsd trade \<le> 0
                then m2\<lparr>state := (state m2)\<lparr>consecutiveLosses := consecutiveLosses (state m2) + 1,
                                              lastLossTime := Some (now env 1)\<rparr>\<rparr>
                else m2\<lparr>state := (state m2)\<lparr>consecutiveLosses := 0\<rparr>\<rparr>);
          (r, m4) = (if - dailyPnl (state m3) \<ge> maxDailyLossUsd (limits m3)
                     then killSwitch env ''Daily loss limit exceeded'' m3
                     else (Inr (), m3))
      in case r of
           Inl e \<Rightarrow> (Inl e, m4)
         | Inr u \<Rightarrow>
             (if consecutiveLosses (state m4) \<ge> 3
              then (if recordRiskEvent env ''consecutive_losses'' then Inr () else Inl DatabaseError, m4)
              else (Inr (), m4)))"

text \<open>\<open>Partial<RiskLimits>\<close>: an absent field is \<open>None\<close> and keeps the old value.\<close>

record PartialRiskLimits =
  new_maxDailyLossUsd :: "real option"
  new_maxNotionalUsd :: "real option"
  new_maxTradesPerHour :: "real option"
  new_maxConsecutiveLosses :: "real option"
  new_cooldownAfterLossMs :: "real option"
  new_minTimeBetweenTradesMs :: "real option"

definition orKeep :: "'a option \<Rightarrow> 'a \<Rightarrow> 'a" where
  "orKeep x old = (case x of None \<Rightarrow> old | Some v \<Rightarrow> v)"

definition updateLimits :: "PartialRiskLimits \<Rightarrow> RiskManager \<Rightarrow> RiskManager" where
  "updateLimits newLimits m =
     m\<lparr>limits :=
        \<lparr> maxDailyLossUsd = orKeep (new_maxDailyLossUsd newLimits) (maxDailyLossUsd (limits m)),
          maxNotionalUsd = orKeep (new_maxNotionalUsd newLimits) (maxNotionalUsd (limits m)),
          maxTradesPerHour = orKeep (new_maxTradesPerHour newLimits) (maxTradesPerHour (limits m)),
          maxConsecutiveLosses =
            orKeep (new_maxConsecutiveLosses newLimits) (maxConsecutiveLosses (limits m)),
          cooldownAfterLossMs =
            orKeep (new_cooldownAfterLossMs newLimits) (cooldownAfterLossMs (limits m)),
          minTimeBetweenTradesMs =
            orKeep (new_minTimeBetweenTradesMs newLimits) (minTimeBetweenTradesMs (limits m)) \<rparr>\<rparr>"

definition getState :: "RiskManager \<Rightarrow> RiskState" where
  "getState m = state m"

definition getLimits :: "RiskManager \<Rightarrow> RiskLimits" where
  "getLimits m = limits m"

definition checkLimits :: "Env \<Rightarrow> RiskManager \<Rightarrow> (error + unit) \<times> RiskManager" where
  "checkLimits env m =
     (let m1 = updateDailyPnl env m
      in if - dailyPnl (state m1) \<ge> maxDailyLossUsd (limits m1) \<and> \<not> isKilled (state m1)
         then killSwitch env ''Daily loss limit check failed'' m1
         else (Inr (), m1))"

definition resetDailyCounters :: "RiskManager \<Rightarrow> RiskManager" where
  "resetDailyCounters m =
     m\<lparr>state := (state m)\<lparr>dailyPnl := 0, consecutiveLosses := 0, lastLossTime := None\<rparr>\<rparr>"

definition emergencyStop :: "Env \<Rightarrow> RiskManager \<Rightarrow> (error + unit) \<times> RiskManager" where
  "emergencyStop env m = killSwitch env ''Emergency stop activated'' m"

subsection \<open>Sequences of calls\<close>

text \<open>
  A call of one method of the controller, and the manager it leaves behind whether the
  call returns or raises. \<open>InitializeState\<close> is the constructor's asynchronous
  initialisation, which may complete between any two other calls.
\<close>

datatype call =
    CanTrade real real
  | RecordTrade Trade
  | KillSwitch string
  | ResetKillSwitch
  | UpdateLimits PartialRiskLimits
  | GetState
  | GetLimits
  | CheckLimits
  | ShouldStop
  | ResetDailyCounters
  | EmergencyStop
  | InitializeState

fun perform :: "Env \<Rightarrow> call \<Rightarrow> RiskManager \<Rightarrow> RiskManager" where
  "perform env (CanTrade amountUsd expectedProfitUsd) m = snd (canTrade env amountUsd expectedProfitUsd m)"
| "perform env (RecordTrade trade) m = snd (recordTrade env trade m)"
| "perform env (KillSwitch reason) m = snd (killSwitch env reason m)"
| "perform env ResetKillSwitch m = snd (resetKillSwitch env m)"
| "perform env (UpdateLimits newLimits) m = updateLimits newLimits m"
| "perform env GetState m = m"
| "perform env GetLimits m = m"
| "perform env CheckLimits m = snd (checkLimits env m)"
| "perform env ShouldStop m = snd (shouldStop env m)"
| "perform env ResetDailyCounters m = resetDailyCounters m"
| "perform env EmergencyStop m = snd (emergencyStop env m)"
| "perform env InitializeState m = initializeState env m"

fun performAll :: "(Env \<times> call) list \<Rightarrow> RiskManager \<Rightarrow> RiskManager" where
  "performAll [] m = m"
| "performAll ((env, c) # calls) m = performAll calls (perform env c m)"

text \<open>Recording a list of outcomes, oldest first, each under its own environment.\<close>

fun recordTrades :: "(Env \<times> Trade) list \<Rightarrow> RiskManager \<Rightarrow> RiskManager" where
  "recordTrades [] m = m"
| "recordTrades ((env, trade) # rest) m = recordTrades rest (snd (recordTrade env trade m))"

subsection \<open>The mock database of the repository's tests\<close>

text \<open>
  \<open>MockDatabase\<close> of the risk controller's test-suite: fixed daily statistics, a stored
  trade list of which \<open>getRecentTrades limit\<close> returns the last \<open>limit\<close> entries
  (\<open>slice(-limit)\<close>), and an event log that always accepts. The clock stands still.
\<close>

definition mockEnv :: "real \<Rightarrow> Trade list \<Rightarrow> int \<Rightarrow> Env" where
  "mockEnv pnl trades clock =
     \<lparr> getDailyStats = Inr pnl,
       getRecentTrades = (\<lambda>limit. Inr (drop (length trades - limit) trades)),
       recordRiskEvent = (\<lambda>eventType. True),
       now = (\<lambda>k. clock) \<rparr>"

section \<open>Helper facts\<close>

lemma bigint_div_nonneg:
  assumes "0 \<le> a" and "0 < b"
  shows "bigint_div a b = Inr (a div b)"
proof (cases "a = 0")
  case True
  then show ?thesis using assms by (simp add: bigint_div_def)
next
  case False
  with assms have "0 < a" by simp
  with assms show ?thesis by (simp add: bigint_div_def)
qed

lemma BigInt_of_int: "BigInt (10000 - real_of_int fb) = Inr (10000 - fb)"
proof -
  have "10000 - real_of_int fb = real_of_int (10000 - fb)" by simp
  then show ?thesis unfolding BigInt_def by (metis floor_of_int)
qed

lemma int_div_ge:
  fixes a b c :: int
  assumes "0 < b" and "c * b \<le> a"
  shows "c \<le> a div b"
proof -
  have "(c * b) div b \<le> a div b" using assms by (intro zdiv_mono1)
  then show ?thesis using assms by simp
qed

lemma int_div_less:
  fixes a b c :: int
  assumes "0 < b" and "a < c * b"
  shows "a div b < c"
proof (rule ccontr)
  assume "\<not> a div b < c"
  then have "c \<le> a div b" by simp
  then have "c * b \<le> (a div b) * b" using assms by simp
  also have "\<dots> \<le> a"
  proof -
    have "a = (a div b) * b + a mod b" by simp
    moreover have "0 \<le> a mod b" using assms by simp
    ultimately show ?thesis by linarith
  qed
  finally show False using assms by simp
qed

lemma int_lt_succ_div_mult:
  fixes a b :: int
  assumes "0 < b"
  shows "a < (a div b + 1) * b"
proof -
  have "a = (a div b) * b + a mod b" by simp
  moreover have "a mod b < b" using assms by simp
  moreover have "(a div b + 1) * b = (a div b) * b + b" by (simp add: algebra_simps)
  ultimately show ?thesis by linarith
qed

lemma getAmountOut_pos:
  assumes "0 < amountIn" "0 < reserveIn" "0 < reserveOut" "fb \<le> 10000"
  shows "getAmountOut amountIn reserveIn reserveOut (real_of_int fb) =
           Inr ((amountIn * (10000 - fb) * reserveOut) div
                (reserveIn * 10000 + amountIn * (10000 - fb)))"
proof -
  have n: "0 \<le> amountIn * (10000 - fb) * reserveOut" using assms by simp
  have "0 \<le> amountIn * (10000 - fb)" using assms by simp
  moreover have "0 < reserveIn * 10000" using assms by simp
  ultimately have d: "0 < reserveIn * 10000 + amountIn * (10000 - fb)" by linarith
  show ?thesis
    using assms bigint_div_nonneg [OF n d]
    by (simp add: getAmountOut_def BigInt_of_int Let_def)
qed

lemma amountOut_formula_less:
  assumes "0 < amountIn" "0 < reserveIn" "0 < reserveOut" "fb \<le> 10000"
  shows "(amountIn * (10000 - fb) * reserveOut) div
           (reserveIn * 10000 + amountIn * (10000 - fb)) < (reserveOut::int)"
proof -
  define e where "e = amountIn * (10000 - fb)"
  have e0: "0 \<le> e" using assms by (simp add: e_def)
  have r: "0 < reserveIn * 10000" using assms by simp
  have d: "0 < reserveIn * 10000 + e" using e0 r by linarith
  have "0 < reserveOut * (reserveIn * 10000)" using assms r by simp
  then have "e * reserveOut < reserveOut * (reserveIn * 10000 + e)"
    by (simp add: algebra_simps)
  then have "(e * reserveOut) div (reserveIn * 10000 + e) < reserveOut"
    using d by (intro int_div_less)
  then show ?thesis by (simp add: e_def)
qed

lemma getAmountIn_pos:
  assumes "0 < amountOut" "amountOut < reserveOut" "0 < reserveIn" "fb < 10000"
  shows "getAmountIn amountOut reserveIn reserveOut (real_of_int fb) =
           Inr ((reserveIn * amountOut * 10000) div
                ((reserveOut - amountOut) * (10000 - fb)) + 1)"
proof -
  have n: "0 \<le> reserveIn * amountOut * 10000" using assms by simp
  have d: "0 < (reserveOut - amountOut) * (10000 - fb)" using assms by simp
  show ?thesis
    using assms bigint_div_nonneg [OF n d]
    by (simp add: getAmountIn_def BigInt_of_int Let_def)
qed

lemma roundtrip_formula:
  fixes amountOut reserveIn reserveOut fb :: int
  assumes "0 < amountOut" "amountOut < reserveOut" "0 < reserveIn" "fb < 10000"
  defines "ain \<equiv> (reserveIn * amountOut * 10000) div
                ((reserveOut - amountOut) * (10000 - fb)) + 1"
  shows "0 < ain"
    and "amountOut \<le> (ain * (10000 - fb) * reserveOut) div
                (reserveIn * 10000 + ain * (10000 - fb))"
proof -
  let ?N = "reserveIn * amountOut * 10000"
  let ?D = "(reserveOut - amountOut) * (10000 - fb)"
  have n: "0 \<le> ?N" using assms by simp
  have d: "0 < ?D" using assms by simp
  have "0 \<le> ?N div ?D" using n d by (simp add: pos_imp_zdiv_nonneg_iff)
  then show pos: "0 < ain" by (simp add: ain_def)
  have "?N < ain * ?D" unfolding ain_def using d by (rule int_lt_succ_div_mult)
  then have "amountOut * (reserveIn * 10000 + ain * (10000 - fb))
               \<le> ain * (10000 - fb) * reserveOut"
    by (simp add: algebra_simps)
  moreover have "0 < reserveIn * 10000 + ain * (10000 - fb)"
  proof -
    have "0 < reserveIn * 10000" using assms by simp
    moreover have "0 \<le> ain * (10000 - fb)" using pos assms by simp
    ultimately show ?thesis by linarith
  qed
  ultimately show "amountOut \<le> (ain * (10000 - fb) * reserveOut) div
                (reserveIn * 10000 + ain * (10000 - fb))"
    by (intro int_div_ge)
qed

section \<open>Helper facts about binary64 rounding\<close>

lemma exponent2_bounds:
  assumes "0 < x"
  shows "2 powi exponent2 x \<le> x \<and> x < 2 powi (exponent2 x + 1)"
proof (cases "1 \<le> x")
  case True
  let ?m = "\<lfloor>x\<rfloor>"
  have m: "0 < ?m" using True by simp
  have b1: "1 \<le> bitlen ?m" using m by (simp add: bitlen_alt_def)
  from bitlen_bounds [OF m]
  have lo: "2 ^ nat (bitlen ?m - 1) \<le> ?m" and hi: "?m < 2 ^ nat (bitlen ?m)" by simp_all
  have "real_of_int (2 ^ nat (bitlen ?m - 1)) \<le> real_of_int ?m" using lo by linarith
  then have l: "(2::real) ^ nat (bitlen ?m - 1) \<le> x" by (simp add: le_floor_iff)
  have "?m + 1 \<le> 2 ^ nat (bitlen ?m)" using hi by simp
  then have "real_of_int (?m + 1) \<le> real_of_int (2 ^ nat (bitlen ?m))" by linarith
  then have "real_of_int ?m + 1 \<le> (2::real) ^ nat (bitlen ?m)" by simp
  moreover have "x < real_of_int ?m + 1" by linarith
  ultimately have h: "x < (2::real) ^ nat (bitlen ?m)" by linarith
  show ?thesis using True l h b1 by (simp add: exponent2_def power_int_def)
next
  case False
  define y where "y = 1 / x"
  define m where "m = \<lceil>y\<rceil> - 1"
  let ?b = "bitlen m"
  have x1: "x < 1" using False by simp
  have y1: "1 < y" using assms x1 by (simp add: y_def)
  have my: "real_of_int m < y" and ym: "y \<le> real_of_int m + 1"
    unfolding m_def by linarith+
  have m: "0 < m" using y1 ym by linarith
  have b1: "1 \<le> ?b" using m by (simp add: bitlen_alt_def)
  from bitlen_bounds [OF m]
  have lo: "2 ^ nat (?b - 1) \<le> m" and hi: "m < 2 ^ nat ?b" by simp_all
  have "real_of_int (2 ^ nat (?b - 1)) \<le> real_of_int m" using lo by linarith
  then have "(2::real) ^ nat (?b - 1) \<le> real_of_int m" by simp
  then have l: "(2::real) ^ nat (?b - 1) < y" using my by linarith
  have "m + 1 \<le> 2 ^ nat ?b" using hi by simp
  then have "real_of_int (m + 1) \<le> real_of_int (2 ^ nat ?b)" by linarith
  then have "real_of_int m + 1 \<le> (2::real) ^ nat ?b" by simp
  then have h: "y \<le> (2::real) ^ nat ?b" using ym by linarith
  have e: "exponent2 x = - ?b" using False by (simp add: exponent2_def m_def y_def)
  have p1: "2 powi (- ?b) = inverse ((2::real) ^ nat ?b)"
  proof -
    have "(2::real) powi (- ?b) = inverse (2 powi ?b)" by (rule power_int_minus)
    also have "(2::real) powi ?b = 2 ^ nat ?b" using b1 by (simp add: power_int_def)
    finally show ?thesis .
  qed
  have p2: "2 powi (- ?b + 1) = inverse ((2::real) ^ nat (?b - 1))"
  proof -
    have "- ?b + 1 = - (?b - 1)" by simp
    then have "(2::real) powi (- ?b + 1) = inverse (2 powi (?b - 1))"
      by (simp only: power_int_minus)
    also have "(2::real) powi (?b - 1) = 2 ^ nat (?b - 1)" using b1 by (simp add: power_int_def)
    finally show ?thesis .
  qed
  have xy: "x = inverse y" using assms by (simp add: y_def)
  have a: "inverse ((2::real) ^ nat ?b) \<le> x"
    unfolding xy using h y1 by (intro le_imp_inverse_le) auto
  have b: "x < inverse ((2::real) ^ nat (?b - 1))"
    unfolding xy using l by (intro less_imp_inverse_less) auto
  show ?thesis using a b by (simp only: e p1 p2 simp_thms)
qed


lemma exponent2_floor_log:
  assumes "0 < x"
  shows "exponent2 x = \<lfloor>log 2 x\<rfloor>"
proof -
  let ?k = "exponent2 x"
  have p: "2 powr real_of_int j = (2::real) powi j" for j by (simp add: powr_real_of_int')
  have "2 powr real_of_int ?k \<le> x" using exponent2_bounds [OF assms] by (simp only: p)
  moreover have "x < 2 powr (real_of_int ?k + 1)"
  proof -
    have "x < 2 powr real_of_int (?k + 1)" using exponent2_bounds [OF assms] by (simp only: p)
    then show ?thesis by simp
  qed
  ultimately have "\<lfloor>log 2 x\<rfloor> = ?k" using assms by (simp add: floor_log_eq_powr_iff)
  then show ?thesis by simp
qed







lemmas binary64_eval =
  binary64_def exponent2_def roundEven_def round64_def Let_def compute_bitlen power_int_minus

section \<open>The swap output\<close>

text \<open>
  C5. \<open>getAmountOut\<close> returns 0 as soon as the amount or one of the reserves is 0. For a
  positive amount and positive reserves, and a fee that is a whole number of basis points
  of at most 10000 (a fee cannot exceed 100 percent), it returns exactly
  \<open>floor (effIn * reserveOut / (reserveIn * 10000 + effIn))\<close> with
  \<open>effIn = amountIn * (10000 - feeBps)\<close>, and that output is strictly less than
  \<open>reserveOut\<close>. (\<open>div\<close> on \<open>int\<close> is the floor of the quotient.)
\<close>

theorem getAmountOut_constant_product:
  fixes amountIn reserveIn reserveOut fb :: int and feeBps :: real
  shows "getAmountOut 0 reserveIn reserveOut feeBps = Inr 0 \<and>
         getAmountOut amountIn 0 reserveOut feeBps = Inr 0 \<and>
         getAmountOut amountIn reserveIn 0 feeBps = Inr 0 \<and>
         (0 < amountIn \<and> 0 < reserveIn \<and> 0 < reserveOut \<and> fb \<le> 10000 \<longrightarrow>
            (\<exists>out. getAmountOut amountIn reserveIn reserveOut (real_of_int fb) = Inr out \<and>
                   out = (amountIn * (10000 - fb) * reserveOut) div
                           (reserveIn * 10000 + amountIn * (10000 - fb)) \<and>
                   out < reserveOut))"
proof -
  have z: "getAmountOut 0 reserveIn reserveOut feeBps = Inr 0"
          "getAmountOut amountIn 0 reserveOut feeBps = Inr 0"
          "getAmountOut amountIn reserveIn 0 feeBps = Inr 0"
    by (simp_all add: getAmountOut_def)
  have "\<exists>out. getAmountOut amountIn reserveIn reserveOut (real_of_int fb) = Inr out \<and>
               out = (amountIn * (10000 - fb) * reserveOut) div
                       (reserveIn * 10000 + amountIn * (10000 - fb)) \<and>
               out < reserveOut"
    if "0 < amountIn" "0 < reserveIn" "0 < reserveOut" "fb \<le> 10000"
    using getAmountOut_pos [OF that] amountOut_formula_less [OF that] by simp
  with z show ?thesis by blast
qed

theorem getAmountOut_constant_product_witness:
  "getAmountOut 1000 100000 200000 30 = Inr 1974 \<and> (1974 :: int) < 200000"
  using getAmountOut_constant_product [of 100000 200000 30 1000 30]
  by simp

section \<open>The swap input\<close>

text \<open>
  C6, as stated, fails: a zero operand makes \<open>getAmountIn\<close> return 0 before the
  liquidity check, so a request of 1000 against an empty output reserve is answered
  with 0 and no error; and at a fee of 10000 basis points the division by zero raises a
  RangeError, so there is no result to feed back.
\<close>

theorem getAmountIn_zero_reserve_counterexample:
  "(1000 :: int) \<ge> 0 \<and> getAmountIn 1000 100 0 30 = Inr 0 \<and>
   getAmountIn 1 1 2 10000 = Inl RangeError"
  by (simp add: getAmountIn_def BigInt_def bigint_div_def)

text \<open>
  C6, amended. \<open>getAmountIn\<close> fails with \<open>InsufficientLiquidity\<close> exactly when all three
  of \<open>amountOut\<close>, \<open>reserveIn\<close>, \<open>reserveOut\<close> are non-zero and
  \<open>amountOut \<ge> reserveOut\<close>. For positive reserves, a request
  \<open>0 < amountOut < reserveOut\<close> and a fee that is a whole number of basis points below
  10000, it returns an input which, fed back through \<open>getAmountOut\<close> with the same
  reserves and fee, yields at least \<open>amountOut\<close>.
\<close>

theorem getAmountIn_inverse:
  fixes amountOut reserveIn reserveOut fb :: int and feeBps :: real
  shows "(getAmountIn amountOut reserveIn reserveOut feeBps = Inl InsufficientLiquidity
            \<longleftrightarrow> amountOut \<noteq> 0 \<and> reserveIn \<noteq> 0 \<and> reserveOut \<noteq> 0 \<and> amountOut \<ge> reserveOut) \<and>
         (0 < reserveIn \<and> 0 < amountOut \<and> amountOut < reserveOut \<and> fb < 10000 \<longrightarrow>
            (\<exists>amountIn out.
                getAmountIn amountOut reserveIn reserveOut (real_of_int fb) = Inr amountIn \<and>
                getAmountOut amountIn reserveIn reserveOut (real_of_int fb) = Inr out \<and>
                amountOut \<le> out))"
proof -
  have a: "getAmountIn amountOut reserveIn reserveOut feeBps = Inl InsufficientLiquidity
            \<longleftrightarrow> amountOut \<noteq> 0 \<and> reserveIn \<noteq> 0 \<and> reserveOut \<noteq> 0 \<and> amountOut \<ge> reserveOut"
    by (auto simp: getAmountIn_def BigInt_def bigint_div_def Let_def split: sum.splits if_splits)
  have b: "\<exists>amountIn out.
             getAmountIn amountOut reserveIn reserveOut (real_of_int fb) = Inr amountIn \<and>
             getAmountOut amountIn reserveIn reserveOut (real_of_int fb) = Inr out \<and>
             amountOut \<le> out"
    if h: "0 < reserveIn" "0 < amountOut" "amountOut < reserveOut" "fb < 10000"
  proof -
    let ?ain = "(reserveIn * amountOut * 10000) div
                  ((reserveOut - amountOut) * (10000 - fb)) + 1"
    have i: "getAmountIn amountOut reserveIn reserveOut (real_of_int fb) = Inr ?ain"
      using h by (intro getAmountIn_pos)
    have p: "0 < ?ain" using h by (intro roundtrip_formula(1))
    have ro: "0 < reserveOut" using h by linarith
    have f: "fb \<le> 10000" using h by simp
    have o: "getAmountOut ?ain reserveIn reserveOut (real_of_int fb) =
               Inr ((?ain * (10000 - fb) * reserveOut) div
                    (reserveIn * 10000 + ?ain * (10000 - fb)))"
      using p h(1) ro f by (rule getAmountOut_pos)
    have g: "amountOut \<le> (?ain * (10000 - fb) * reserveOut) div
                    (reserveIn * 10000 + ?ain * (10000 - fb))"
      using h by (intro roundtrip_formula(2))
    from i o g show ?thesis by blast
  qed
  from a b show ?thesis by blast
qed

theorem getAmountIn_inverse_witness:
  "(\<exists>amountIn out.
      getAmountIn 1000 100000 200000 30 = Inr amountIn \<and>
      getAmountOut amountIn 100000 200000 30 = Inr out \<and> 1000 \<le> out) \<and>
   getAmountIn 300000 100000 200000 30 = Inl InsufficientLiquidity"
  using getAmountIn_inverse [of 1000 100000 200000 30 30]
        getAmountIn_inverse [of 300000 100000 200000 30 30]
  by simp

lemma estimateArbitrageGas_rounded_limit:
  "gasLimit (estimateArbitrageGas
               (Inr \<lparr>feeGasPrice = None, feeMaxFeePerGas = None, feeMaxPriorityFeePerGas = None\<rparr>)
               (Finite 2000) (Finite (binary64 1.4))) = 489999 \<and>
   estimateArbitrageGas
     (Inr \<lparr>feeGasPrice = None, feeMaxFeePerGas = None, feeMaxPriorityFeePerGas = None\<rparr>)
     (Finite 2000) NaN =
   estimateArbitrageGas (Inl ProviderError) (Finite 2000) NaN"
  by (simp add: estimateArbitrageGas_def estimateArbitrageGas_try_def BigInt_def binary64_eval)

section \<open>The gas estimator's fallback\<close>

text \<open>
  C7. Whatever the provider's fee query raises, and for every price and multiplier
  (not-a-number and the infinities included),
  \<open>estimateArbitrageGas\<close> returns the fixed fallback estimate: gas limit 400000, maximum
  fee 50 gwei, priority fee 2 gwei, cost 0.02 ether, 40 USD. Its result type is a
  \<open>GasEstimate\<close>, not a sum: the \<open>catch\<close> leaves no error to propagate.
\<close>

theorem estimateArbitrageGas_fallback:
  "estimateArbitrageGas (Inl e) ethPriceUsd multiplier =
     \<lparr> gasLimit = 400000, maxFeePerGas = 50000000000, maxPriorityFeePerGas = 2000000000,
       estimatedCostWei = 20000000000000000, estimatedCostUsd = Finite 40 \<rparr>"
  by (simp add: estimateArbitrageGas_def estimateArbitrageGas_try_def gwei_def ether_def)

section \<open>The Kelly position sizer\<close>

text \<open>
  C8, as stated, fails for a negative capital: the clamped fraction is multiplied by
  \<open>totalCapital\<close> unchecked, so the result is negative when the fraction is positive, and
  it exceeds 10 percent of the (negative) capital when the fraction is 0.
\<close>

theorem calculateKellyPositionSize_counterexample:
  "calculateKellyPositionSize (- 100) 1 1 1 = - 10 \<and>
   calculateKellyPositionSize (- 100) 1 1 1 < 0 \<and>
   calculateKellyPositionSize (- 100) (4 / 10) 50 100 = 0 \<and>
   calculateKellyPositionSize (- 100) (4 / 10) 50 100 > (1 / 10) * (- 100)"
  by (simp add: calculateKellyPositionSize_def Let_def)

text \<open>
  C8, amended. The sizer returns exactly 0 when \<open>avgLossAmount = 0\<close> or
  \<open>winProbability = 0\<close>; and for every input with \<open>totalCapital \<ge> 0\<close> its result is at
  least 0 and at most 10 percent of \<open>totalCapital\<close>, however large the Kelly fraction.
\<close>

theorem calculateKellyPositionSize_bounds:
  "calculateKellyPositionSize totalCapital winProbability avgWinAmount 0 = 0 \<and>
   calculateKellyPositionSize totalCapital 0 avgWinAmount avgLossAmount = 0 \<and>
   (0 \<le> totalCapital \<longrightarrow>
      0 \<le> calculateKellyPositionSize totalCapital winProbability avgWinAmount avgLossAmount \<and>
      calculateKellyPositionSize totalCapital winProbability avgWinAmount avgLossAmount
        \<le> totalCapital * (1 / 10))"
proof -
  have "0 \<le> totalCapital * max 0 (min (1 / 10) k) \<and>
        totalCapital * max 0 (min (1 / 10) k) \<le> totalCapital * (1 / 10)"
    if "0 \<le> totalCapital" for k :: real
  proof -
    have a: "0 \<le> max 0 (min (1 / 10) k)" and b: "max 0 (min (1 / 10) k) \<le> 1 / 10" by auto
    have "0 \<le> totalCapital * max 0 (min (1 / 10) k)"
      using that a by (rule mult_nonneg_nonneg)
    moreover have "totalCapital * max 0 (min (1 / 10) k) \<le> totalCapital * (1 / 10)"
      using b that by (rule mult_left_mono)
    ultimately show ?thesis by blast
  qed
  then show ?thesis
    by (auto simp: calculateKellyPositionSize_def Let_def
             simp del: max.bounded_iff min.bounded_iff)
qed

theorem calculateKellyPositionSize_bounds_witness:
  "(0 :: real) \<le> 10000 \<and>
   0 \<le> calculateKellyPositionSize 10000 (9 / 10) 1000 10 \<and>
   calculateKellyPositionSize 10000 (9 / 10) 1000 10 \<le> 1000"
  using calculateKellyPositionSize_bounds [of 10000 "9 / 10" 1000 10]
  by simp

section \<open>Value at risk\<close>




section \<open>The daily reset\<close>

text \<open>
  C10. \<open>resetDailyCounters\<close> sets \<open>dailyPnl\<close> to 0, \<open>consecutiveLosses\<close> to 0 and
  \<open>lastLossTime\<close> to null, and leaves \<open>isKilled\<close>, \<open>killReason\<close>, \<open>lastTradeTime\<close>,
  \<open>tradesInLastHour\<close> and the limits as they were: a Killed state is still Killed after
  the day-boundary reset.
\<close>

theorem resetDailyCounters_frame:
  "dailyPnl (state (resetDailyCounters m)) = 0 \<and>
   consecutiveLosses (state (resetDailyCounters m)) = 0 \<and>
   lastLossTime (state (resetDailyCounters m)) = None \<and>
   isKilled (state (resetDailyCounters m)) = isKilled (state m) \<and>
   killReason (state (resetDailyCounters m)) = killReason (state m) \<and>
   lastTradeTime (state (resetDailyCounters m)) = lastTradeTime (state m) \<and>
   tradesInLastHour (state (resetDailyCounters m)) = tradesInLastHour (state m) \<and>
   limits (resetDailyCounters m) = limits m"
  by (simp add: resetDailyCounters_def)

section \<open>Helper facts about the risk controller\<close>

lemma updateDailyPnl_frame:
  "isKilled (state (updateDailyPnl env m)) = isKilled (state m)"
  "killReason (state (updateDailyPnl env m)) = killReason (state m)"
  "consecutiveLosses (state (updateDailyPnl env m)) = consecutiveLosses (state m)"
  "lastTradeTime (state (updateDailyPnl env m)) = lastTradeTime (state m)"
  "lastLossTime (state (updateDailyPnl env m)) = lastLossTime (state m)"
  "tradesInLastHour (state (updateDailyPnl env m)) = tradesInLastHour (state m)"
  "limits (updateDailyPnl env m) = limits m"
  by (simp_all add: updateDailyPnl_def split: sum.splits)

lemma updateTradeCount_frame:
  "isKilled (state (updateTradeCount env m)) = isKilled (state m)"
  "killReason (state (updateTradeCount env m)) = killReason (state m)"
  "consecutiveLosses (state (updateTradeCount env m)) = consecutiveLosses (state m)"
  "lastTradeTime (state (updateTradeCount env m)) = lastTradeTime (state m)"
  "lastLossTime (state (updateTradeCount env m)) = lastLossTime (state m)"
  "dailyPnl (state (updateTradeCount env m)) = dailyPnl (state m)"
  "limits (updateTradeCount env m) = limits m"
  by (simp_all add: updateTradeCount_def Let_def split: sum.splits)

lemma canTrade_killed:
  "isKilled (state m) \<Longrightarrow> canTrade env a p m = (Inr False, m)"
  by (simp add: canTrade_def)

lemma canTrade_early:
  "isKilled (state m) \<or> amountUsd > maxNotionalUsd (limits m) \<Longrightarrow>
     canTrade env amountUsd expectedProfitUsd m = (Inr False, m)"
  by (auto simp: canTrade_def)

lemma killSwitch_killed: "isKilled (state (snd (killSwitch env reason m)))"
  by (simp add: killSwitch_def Let_def)

lemma recordTrade_killed:
  "isKilled (state m) \<Longrightarrow> isKilled (state (snd (recordTrade env trade m)))"
  by (simp add: recordTrade_def killSwitch_def Let_def split: sum.splits prod.splits if_splits)

lemma perform_killed:
  assumes "isKilled (state m)" and "c \<noteq> ResetKillSwitch"
  shows "isKilled (state (perform env c m))"
proof (cases c)
  case (CanTrade a p)
  then show ?thesis using assms by (simp add: canTrade_killed)
next
  case (RecordTrade t)
  then show ?thesis using assms by (simp add: recordTrade_killed)
next
  case (KillSwitch r)
  then show ?thesis by (simp add: killSwitch_killed)
next
  case ResetKillSwitch
  then show ?thesis using assms by simp
next
  case (UpdateLimits l)
  then show ?thesis using assms by (simp add: updateLimits_def)
next
  case GetState
  then show ?thesis using assms by simp
next
  case GetLimits
  then show ?thesis using assms by simp
next
  case CheckLimits
  then show ?thesis using assms
    by (simp add: checkLimits_def Let_def updateDailyPnl_frame)
next
  case ShouldStop
  then show ?thesis using assms by (simp add: shouldStop_def Let_def updateDailyPnl_frame)
next
  case ResetDailyCounters
  then show ?thesis using assms by (simp add: resetDailyCounters_def)
next
  case EmergencyStop
  then show ?thesis by (simp add: emergencyStop_def killSwitch_killed)
next
  case InitializeState
  then show ?thesis using assms
    by (simp add: initializeState_def calculateConsecutiveLosses_def Let_def split: sum.splits)
qed

lemma performAll_killed:
  "isKilled (state m) \<Longrightarrow> ResetKillSwitch \<notin> snd ` set calls \<Longrightarrow>
     isKilled (state (performAll calls m))"
proof (induction calls arbitrary: m)
  case Nil
  then show ?case by simp
next
  case (Cons ec calls)
  obtain env c where ec: "ec = (env, c)" by (cases ec)
  with Cons.prems have "c \<noteq> ResetKillSwitch" by auto
  with Cons.prems have "isKilled (state (perform env c m))" by (intro perform_killed)
  moreover from Cons.prems have "ResetKillSwitch \<notin> snd ` set calls" by auto
  ultimately show ?case using Cons.IH ec by simp
qed

lemma recordTrade_fresh_100:
  "actualProfitUsd trade = - 100 \<Longrightarrow>
     isKilled (state (snd (recordTrade env trade (RiskManager_new 100 maxNotional)))) \<and>
     killReason (state (snd (recordTrade env trade (RiskManager_new 100 maxNotional))))
       = Some ''Daily loss limit exceeded''"
  by (simp add: recordTrade_def killSwitch_def RiskManager_new_def Let_def
           split: sum.splits prod.splits)

lemma recordTrade_consecutiveLosses:
  "consecutiveLosses (state (snd (recordTrade env trade m))) =
     (if actualProfitUsd trade \<le> 0 then consecutiveLosses (state m) + 1 else 0)"
  by (simp add: recordTrade_def killSwitch_def Let_def split: sum.splits prod.splits)

lemma recordTrades_snoc:
  "recordTrades (ets @ [(env, trade)]) m = snd (recordTrade env trade (recordTrades ets m))"
  by (induction ets arbitrary: m) auto

lemma recordTrades_general:
  "consecutiveLosses (state (recordTrades ets m)) =
     (if list_all (\<lambda>t. actualProfitUsd t \<le> 0) (map snd ets)
      then consecutiveLosses (state m) + length ets
      else length (takeWhile (\<lambda>t. actualProfitUsd t \<le> 0) (rev (map snd ets))))"
proof (induction ets rule: rev_induct)
  case Nil
  then show ?case by simp
next
  case (snoc et ets)
  obtain env trade where et: "et = (env, trade)" by (cases et)
  show ?case
  proof (cases "actualProfitUsd trade \<le> 0")
    case True
    then show ?thesis using snoc et
      by (simp add: recordTrades_snoc recordTrade_consecutiveLosses)
  next
    case False
    then show ?thesis using et
      by (simp add: recordTrades_snoc recordTrade_consecutiveLosses)
  qed
qed

lemma takeWhile_all_length:
  assumes "list_all P xs"
  shows "length (takeWhile P (rev xs)) = length xs"
proof -
  have "\<And>x. x \<in> set (rev xs) \<Longrightarrow> P x" using assms by (simp add: list_all_iff)
  then have "takeWhile P (rev xs) = rev xs"
    by (rule takeWhile_eq_all_conv[THEN iffD2, rule_format])
  then show ?thesis by (simp only: length_rev)
qed

lemma recordTrades_fresh:
  "consecutiveLosses (state (recordTrades ets (RiskManager_new d n))) =
     length (takeWhile (\<lambda>t. actualProfitUsd t \<le> 0) (rev (map snd ets)))"
proof -
  have "consecutiveLosses (state (RiskManager_new d n)) = 0" by (simp add: RiskManager_new_def)
  then show ?thesis
    using takeWhile_all_length [of "\<lambda>t. actualProfitUsd t \<le> 0" "map snd ets"]
    by (simp add: recordTrades_general)
qed

lemma countLeadingLosses_takeWhile:
  "countLeadingLosses trades = length (takeWhile (\<lambda>t. actualProfitUsd t \<le> 0) trades)"
  by (induction trades) auto

lemma recordTrade_kill_iff:
  "isKilled (state (snd (recordTrade env trade m))) \<longleftrightarrow>
     isKilled (state m) \<or>
     dailyPnl (state m) + actualProfitUsd trade \<le> - maxDailyLossUsd (limits m)"
  by (auto simp: recordTrade_def killSwitch_def Let_def split: sum.splits prod.splits if_splits)

lemma recordTrade_dailyPnl:
  "dailyPnl (state (snd (recordTrade env trade m))) = dailyPnl (state m) + actualProfitUsd trade"
  by (auto simp: recordTrade_def killSwitch_def Let_def split: sum.splits prod.splits if_splits)

lemma abs_min_gt:
  fixes x l :: real
  assumes "0 \<le> l"
  shows "\<bar>min 0 x\<bar> > l \<longleftrightarrow> x < - l"
  using assms by (auto simp: min_def abs_if)

lemma canTrade_kill_iff:
  assumes "\<not> isKilled (state m)" "amountUsd \<le> maxNotionalUsd (limits m)"
    "0 \<le> maxDailyLossUsd (limits m)"
  shows "isKilled (state (snd (canTrade env amountUsd expectedProfitUsd m))) \<longleftrightarrow>
           dailyPnl (state (updateDailyPnl env m)) + expectedProfitUsd
             < - maxDailyLossUsd (limits m)"
  using assms
    abs_min_gt [OF assms(3), of "dailyPnl (state (updateDailyPnl env m)) + expectedProfitUsd"]
  by (simp add: canTrade_def killSwitch_def Let_def updateDailyPnl_frame updateTradeCount_frame
           split: option.splits)

lemma abs_min_below:
  fixes x l :: real
  assumes "x < - l"
  shows "\<bar>min 0 x\<bar> > l"
  using assms by (auto simp: min_def abs_if)

lemma canTrade_kill_below:
  assumes "\<not> isKilled (state m)" "amountUsd \<le> maxNotionalUsd (limits m)"
    "dailyPnl (state (updateDailyPnl env m)) + expectedProfitUsd < - maxDailyLossUsd (limits m)"
  shows "isKilled (state (snd (canTrade env amountUsd expectedProfitUsd m))) \<and>
         fst (canTrade env amountUsd expectedProfitUsd m) =
           (if recordRiskEvent env ''kill_switch'' then Inr False else Inl DatabaseError) \<and>
         killReason (state (snd (canTrade env amountUsd expectedProfitUsd m))) =
           Some ''Daily loss limit would be exceeded''"
  using assms abs_min_below [OF assms(3)]
  by (simp add: canTrade_def killSwitch_def Let_def updateDailyPnl_frame)

lemma canTrade_alive_above:
  assumes "\<not> isKilled (state m)" "0 \<le> maxDailyLossUsd (limits m)"
    "dailyPnl (state (updateDailyPnl env m)) + expectedProfitUsd > - maxDailyLossUsd (limits m)"
  shows "\<not> isKilled (state (snd (canTrade env amountUsd expectedProfitUsd m)))"
proof (cases "amountUsd \<le> maxNotionalUsd (limits m)")
  case True
  then show ?thesis
    using assms canTrade_kill_iff [OF assms(1) True assms(2), of env expectedProfitUsd] by simp
next
  case False
  then show ?thesis using assms by (simp add: canTrade_def)
qed

lemma updateDailyPnl_eq:
  "updateDailyPnl env m =
     m\<lparr>state := (state m)\<lparr>dailyPnl :=
          (case getDailyStats env of Inl e \<Rightarrow> dailyPnl (state m) | Inr pnl \<Rightarrow> pnl)\<rparr>\<rparr>"
  by (simp add: updateDailyPnl_def split: sum.splits)

lemma updateTradeCount_eq:
  "updateTradeCount env m =
     m\<lparr>state := (state m)\<lparr>tradesInLastHour :=
          (case getRecentTrades env 1000 of
             Inl e \<Rightarrow> tradesInLastHour (state m)
           | Inr recentTrades \<Rightarrow>
               length (filter (\<lambda>trade. timestamp trade > now env 2 - 3600000) recentTrades))\<rparr>\<rparr>"
  by (simp add: updateTradeCount_def Let_def split: sum.splits)

lemma canTrade_guards:
  assumes "\<not> isKilled (state m)" "amountUsd \<le> maxNotionalUsd (limits m)"
    "\<not> \<bar>min 0 (dailyPnl (state (updateDailyPnl env m)) + expectedProfitUsd)\<bar>
         > maxDailyLossUsd (limits m)"
  shows "canTrade env amountUsd expectedProfitUsd m =
     (if real (consecutiveLosses (state m)) \<ge> maxConsecutiveLosses (limits m)
      then (Inr False, updateDailyPnl env m)
      else if (case lastLossTime (state m) of
                 None \<Rightarrow> False
               | Some t \<Rightarrow> real_of_int (now env 0 - t) < cooldownAfterLossMs (limits m))
      then (Inr False, updateDailyPnl env m)
      else if (case lastTradeTime (state m) of
                 None \<Rightarrow> False
               | Some t \<Rightarrow> real_of_int (now env 1 - t) < minTimeBetweenTradesMs (limits m))
      then (Inr False, updateDailyPnl env m)
      else if real (tradesInLastHour (state (updateTradeCount env (updateDailyPnl env m))))
                \<ge> maxTradesPerHour (limits m)
      then (Inr False, updateTradeCount env (updateDailyPnl env m))
      else (Inr True, updateTradeCount env (updateDailyPnl env m)))"
  using assms
  by (simp add: canTrade_def Let_def updateDailyPnl_frame updateTradeCount_frame
           cong: option.case_cong)

section \<open>The daily-loss kill switch\<close>

text \<open>
  C1, as stated, fails in \<open>canTrade\<close>. Its guard is strict: with a limit of 100 and a
  database total of -50, a trade projected to lose 50 lands exactly on -100, and the
  call neither engages the kill switch nor rejects the trade. And the guard is only
  reached past the notional cap: a notional of 1000 against a cap of 500 is rejected
  with the state left alive, although the projected total of -105 is below -100.
\<close>

theorem canTrade_boundary_counterexample:
  "dailyPnl (state (updateDailyPnl (mockEnv (- 50) [] 0) (RiskManager_new 100 500))) + (- 50)
      \<le> - maxDailyLossUsd (limits (RiskManager_new 100 500)) \<and>
   fst (canTrade (mockEnv (- 50) [] 0) 50 (- 50) (RiskManager_new 100 500)) = Inr True \<and>
   \<not> isKilled (state (snd (canTrade (mockEnv (- 50) [] 0) 50 (- 50) (RiskManager_new 100 500)))) \<and>
   canTrade (mockEnv (- 90) [] 0) 1000 (- 15) (RiskManager_new 100 500)
     = (Inr False, RiskManager_new 100 500) \<and>
   \<not> isKilled (state (RiskManager_new 100 500))"
  by (simp add: canTrade_def updateDailyPnl_def updateTradeCount_def mockEnv_def
        RiskManager_new_def Let_def)

text \<open>
  C1, amended. \<open>recordTrade\<close> adds the outcome to \<open>dailyPnl\<close> and leaves the state Killed
  exactly when it was Killed already or the realized \<open>dailyPnl\<close> is now at or below
  \<open>-maxDailyLossUsd\<close>. A \<open>canTrade\<close> call on a state that is not Killed and with a
  notional within \<open>maxNotionalUsd\<close> itself transitions the state to Killed whenever the
  projected total (the \<open>dailyPnl\<close> refreshed from the database plus
  \<open>expectedProfitUsd\<close>) is strictly below \<open>-maxDailyLossUsd\<close>: it sets the reason and
  returns false (or raises, when writing the risk event fails). With a limit
  \<open>maxDailyLossUsd \<ge> 0\<close>, a projected total strictly above \<open>-maxDailyLossUsd\<close> never
  engages the kill switch.
\<close>

theorem kill_switch_thresholds:
  "(isKilled (state (snd (recordTrade env trade m))) \<longleftrightarrow>
      isKilled (state m) \<or>
      dailyPnl (state m) + actualProfitUsd trade \<le> - maxDailyLossUsd (limits m)) \<and>
   dailyPnl (state (snd (recordTrade env trade m))) = dailyPnl (state m) + actualProfitUsd trade \<and>
   (\<not> isKilled (state m) \<and> amountUsd \<le> maxNotionalUsd (limits m) \<and>
    dailyPnl (state (updateDailyPnl env m)) + expectedProfitUsd < - maxDailyLossUsd (limits m) \<longrightarrow>
      isKilled (state (snd (canTrade env amountUsd expectedProfitUsd m))) \<and>
      fst (canTrade env amountUsd expectedProfitUsd m) =
        (if recordRiskEvent env ''kill_switch'' then Inr False else Inl DatabaseError) \<and>
      killReason (state (snd (canTrade env amountUsd expectedProfitUsd m))) =
        Some ''Daily loss limit would be exceeded'') \<and>
   (\<not> isKilled (state m) \<and> 0 \<le> maxDailyLossUsd (limits m) \<and>
    dailyPnl (state (updateDailyPnl env m)) + expectedProfitUsd > - maxDailyLossUsd (limits m) \<longrightarrow>
      \<not> isKilled (state (snd (canTrade env amountUsd expectedProfitUsd m))))"
  using recordTrade_kill_iff [of env trade m] recordTrade_dailyPnl [of env trade m]
    canTrade_kill_below [of m amountUsd env expectedProfitUsd]
    canTrade_alive_above [of m env expectedProfitUsd amountUsd]
  by blast

theorem kill_switch_thresholds_witness:
  "isKilled (state (snd (canTrade (mockEnv (- 90) [] 0) 100 (- 15) (RiskManager_new 100 500)))) \<and>
   fst (canTrade (mockEnv (- 90) [] 0) 100 (- 15) (RiskManager_new 100 500)) = Inr False \<and>
   \<not> isKilled (state (snd (canTrade (mockEnv (- 50) [] 0) 100 (- 30) (RiskManager_new 100 500)))) \<and>
   isKilled (state (snd (recordTrade (mockEnv 0 [] 0) \<lparr>timestamp = 0, actualProfitUsd = - 100\<rparr>
                           (RiskManager_new 100 500))))"
  using kill_switch_thresholds [of "mockEnv (- 90) [] 0" _ "RiskManager_new 100 500" 100 "- 15"]
    kill_switch_thresholds [of "mockEnv (- 50) [] 0" _ "RiskManager_new 100 500" 100 "- 30"]
    kill_switch_thresholds [of "mockEnv 0 [] 0" "\<lparr>timestamp = 0, actualProfitUsd = - 100\<rparr>"
                               "RiskManager_new 100 500"]
  by (simp add: RiskManager_new_def updateDailyPnl_def mockEnv_def)

section \<open>The latch\<close>

text \<open>
  C2. On a Killed state \<open>canTrade\<close> returns false for any arguments and any environment,
  and changes nothing. After any sequence of calls that contains no \<open>resetKillSwitch\<close>
  a Killed state is still Killed and \<open>canTrade\<close> still returns false, while
  \<open>resetKillSwitch\<close> clears the flag and the reason. From the constructor's state with
  \<open>maxDailyLossUsd = 100\<close>, recording an outcome of -100 sets \<open>isKilled\<close> with the reason
  'Daily loss limit exceeded'.
\<close>

theorem kill_switch_latches:
  "(isKilled (state m) \<longrightarrow> canTrade env amountUsd expectedProfitUsd m = (Inr False, m)) \<and>
   (isKilled (state m) \<and> ResetKillSwitch \<notin> snd ` set calls \<longrightarrow>
      isKilled (state (performAll calls m)) \<and>
      fst (canTrade env amountUsd expectedProfitUsd (performAll calls m)) = Inr False) \<and>
   \<not> isKilled (state (snd (resetKillSwitch env m))) \<and>
   killReason (state (snd (resetKillSwitch env m))) = None \<and>
   (actualProfitUsd trade = - 100 \<longrightarrow>
      isKilled (state (snd (recordTrade env trade (RiskManager_new 100 maxNotional)))) \<and>
      killReason (state (snd (recordTrade env trade (RiskManager_new 100 maxNotional))))
        = Some ''Daily loss limit exceeded'')"
proof -
  have a: "canTrade env amountUsd expectedProfitUsd m = (Inr False, m)" if "isKilled (state m)"
    using that by (rule canTrade_killed)
  have b: "isKilled (state (performAll calls m)) \<and>
           fst (canTrade env amountUsd expectedProfitUsd (performAll calls m)) = Inr False"
    if "isKilled (state m)" "ResetKillSwitch \<notin> snd ` set calls"
  proof -
    have k: "isKilled (state (performAll calls m))" using that by (rule performAll_killed)
    then show ?thesis by (simp add: canTrade_killed)
  qed
  have c: "\<not> isKilled (state (snd (resetKillSwitch env m)))"
          "killReason (state (snd (resetKillSwitch env m))) = None"
    by (simp_all add: resetKillSwitch_def Let_def)
  from a b c recordTrade_fresh_100 [of trade env maxNotional] show ?thesis by blast
qed

theorem kill_switch_latches_witness:
  "isKilled (state (snd (killSwitch (mockEnv 0 [] 0) ''Test kill'' (RiskManager_new 100 500)))) \<and>
   fst (canTrade (mockEnv 0 [] 0) 50 2
          (performAll [(mockEnv 0 [] 0, RecordTrade \<lparr>timestamp = 0, actualProfitUsd = 10\<rparr>),
                       (mockEnv 0 [] 0, ResetDailyCounters),
                       (mockEnv 0 [] 0, CheckLimits)]
             (snd (killSwitch (mockEnv 0 [] 0) ''Test kill'' (RiskManager_new 100 500)))))
     = Inr False \<and>
   isKilled (state (snd (recordTrade (mockEnv 0 [] 0) \<lparr>timestamp = 0, actualProfitUsd = - 100\<rparr>
                           (RiskManager_new 100 500))))"
  using kill_switch_latches
          [of "snd (killSwitch (mockEnv 0 [] 0) ''Test kill'' (RiskManager_new 100 500))"
              "mockEnv 0 [] 0" 50 2
              "[(mockEnv 0 [] 0, RecordTrade \<lparr>timestamp = 0, actualProfitUsd = 10\<rparr>),
                (mockEnv 0 [] 0, ResetDailyCounters),
                (mockEnv 0 [] 0, CheckLimits)]"
              "\<lparr>timestamp = 0, actualProfitUsd = - 100\<rparr>" 500]
    killSwitch_killed [of "mockEnv 0 [] 0" "''Test kill''" "RiskManager_new 100 500"]
  by simp

section \<open>The loss streak\<close>

text \<open>
  C3. After recording any list of outcomes on the constructor's state,
  \<open>consecutiveLosses\<close> is the length of the maximal trailing run of outcomes with
  \<open>actualProfitUsd \<le> 0\<close>; each single \<open>recordTrade\<close> adds one to the counter on such an
  outcome (break-even included) and resets it to 0 on a profitable one, so from any
  state the counter is the trailing run, plus the earlier count when no outcome was
  profitable. \<open>calculateConsecutiveLosses\<close> counts the same run at the head of the
  most-recent-first list the database returns. The outcomes [+2, -1, -2, -1.5] and
  [-1, 0, -1] both leave the counter at 3.
\<close>

theorem consecutiveLosses_trailing_run:
  "consecutiveLosses (state (recordTrades ets (RiskManager_new d n))) =
     length (takeWhile (\<lambda>t. actualProfitUsd t \<le> 0) (rev (map snd ets))) \<and>
   consecutiveLosses (state (recordTrades ets m)) =
     (if list_all (\<lambda>t. actualProfitUsd t \<le> 0) (map snd ets)
      then consecutiveLosses (state m) + length ets
      else length (takeWhile (\<lambda>t. actualProfitUsd t \<le> 0) (rev (map snd ets)))) \<and>
   consecutiveLosses (state (snd (recordTrade env trade m))) =
     (if actualProfitUsd trade \<le> 0 then consecutiveLosses (state m) + 1 else 0) \<and>
   consecutiveLosses (state (calculateConsecutiveLosses trades m)) =
     length (takeWhile (\<lambda>t. actualProfitUsd t \<le> 0) trades) \<and>
   consecutiveLosses (state (recordTrades
       (map (\<lambda>p. (env, \<lparr>timestamp = 0, actualProfitUsd = p\<rparr>)) [2, - 1, - 2, - 1.5])
       (RiskManager_new d n))) = 3 \<and>
   consecutiveLosses (state (recordTrades
       (map (\<lambda>p. (env, \<lparr>timestamp = 0, actualProfitUsd = p\<rparr>)) [- 1, 0, - 1])
       (RiskManager_new d n))) = 3"
proof -
  have e1: "consecutiveLosses (state (recordTrades
       (map (\<lambda>p. (env, \<lparr>timestamp = 0, actualProfitUsd = p\<rparr>)) [2, - 1, - 2, - 1.5])
       (RiskManager_new d n))) = 3"
    by (subst recordTrades_fresh) simp
  have e2: "consecutiveLosses (state (recordTrades
       (map (\<lambda>p. (env, \<lparr>timestamp = 0, actualProfitUsd = p\<rparr>)) [- 1, 0, - 1])
       (RiskManager_new d n))) = 3"
    by (subst recordTrades_fresh) simp
  have c: "consecutiveLosses (state (calculateConsecutiveLosses trades m)) =
     length (takeWhile (\<lambda>t. actualProfitUsd t \<le> 0) trades)"
    by (simp add: calculateConsecutiveLosses_def countLeadingLosses_takeWhile)
  from e1 e2 c recordTrades_fresh [of ets d n] recordTrades_general [of ets m]
    recordTrade_consecutiveLosses [of env trade m]
  show ?thesis by blast
qed

section \<open>What a rejected authorization changes\<close>

text \<open>
  C4, as stated, fails: every guard after the notional cap runs behind
  \<open>updateDailyPnl\<close>, which overwrites \<open>dailyPnl\<close> with the database's total. After five
  recorded losses of 1 the in-memory total is -5; the mock database still reports 0; the
  next \<open>canTrade\<close> fails the consecutive-loss guard, returns false, and leaves
  \<open>dailyPnl\<close> at 0.
\<close>

theorem canTrade_rejection_mutates_counterexample:
  "fst (canTrade (mockEnv 0 [] 1000) 50 2
          (recordTrades
             (replicate 5 (mockEnv 0 [] 1000, \<lparr>timestamp = 1000, actualProfitUsd = - 1\<rparr>))
             (RiskManager_new 100 500))) = Inr False \<and>
   dailyPnl (state
          (recordTrades
             (replicate 5 (mockEnv 0 [] 1000, \<lparr>timestamp = 1000, actualProfitUsd = - 1\<rparr>))
             (RiskManager_new 100 500))) = - 5 \<and>
   dailyPnl (state (snd (canTrade (mockEnv 0 [] 1000) 50 2
          (recordTrades
             (replicate 5 (mockEnv 0 [] 1000, \<lparr>timestamp = 1000, actualProfitUsd = - 1\<rparr>))
             (RiskManager_new 100 500))))) = 0"
  by (simp add: canTrade_def recordTrade_def killSwitch_def updateDailyPnl_def mockEnv_def
        RiskManager_new_def Let_def numeral_eq_Suc)

text \<open>
  C4, amended. A \<open>canTrade\<close> call that fails the Killed check or the notional cap returns
  false and leaves the manager unchanged. A call that passes those two and the
  projected-daily-loss guard, and whose first failing guard is the consecutive losses,
  the loss cooldown or the trade spacing, returns false and leaves the manager as
  \<open>updateDailyPnl\<close> left it: the old one with \<open>dailyPnl\<close> overwritten by the database's
  daily total (kept when the query fails). When the first failing guard is the hourly
  rate, the call returns false and \<open>tradesInLastHour\<close> has been recounted from the
  database as well (kept when the query fails); when no guard fails it returns true
  with that same manager. \<open>isKilled\<close>, \<open>killReason\<close>, \<open>consecutiveLosses\<close>,
  \<open>lastTradeTime\<close>, \<open>lastLossTime\<close> and the limits are never changed by such a call.
\<close>

theorem canTrade_rejection_frame:
  "(isKilled (state m) \<or> amountUsd > maxNotionalUsd (limits m) \<longrightarrow>
      canTrade env amountUsd expectedProfitUsd m = (Inr False, m)) \<and>
   (\<not> isKilled (state m) \<and> amountUsd \<le> maxNotionalUsd (limits m) \<and>
    \<not> \<bar>min 0 (dailyPnl (state (updateDailyPnl env m)) + expectedProfitUsd)\<bar>
         > maxDailyLossUsd (limits m) \<longrightarrow>
      (real (consecutiveLosses (state m)) \<ge> maxConsecutiveLosses (limits m) \<longrightarrow>
         canTrade env amountUsd expectedProfitUsd m = (Inr False, updateDailyPnl env m)) \<and>
      (real (consecutiveLosses (state m)) < maxConsecutiveLosses (limits m) \<and>
       (case lastLossTime (state m) of
          None \<Rightarrow> False
        | Some t \<Rightarrow> real_of_int (now env 0 - t) < cooldownAfterLossMs (limits m)) \<longrightarrow>
         canTrade env amountUsd expectedProfitUsd m = (Inr False, updateDailyPnl env m)) \<and>
      (real (consecutiveLosses (state m)) < maxConsecutiveLosses (limits m) \<and>
       \<not> (case lastLossTime (state m) of
            None \<Rightarrow> False
          | Some t \<Rightarrow> real_of_int (now env 0 - t) < cooldownAfterLossMs (limits m)) \<and>
       (case lastTradeTime (state m) of
          None \<Rightarrow> False
        | Some t \<Rightarrow> real_of_int (now env 1 - t) < minTimeBetweenTradesMs (limits m)) \<longrightarrow>
         canTrade env amountUsd expectedProfitUsd m = (Inr False, updateDailyPnl env m)) \<and>
      (real (consecutiveLosses (state m)) < maxConsecutiveLosses (limits m) \<and>
       \<not> (case lastLossTime (state m) of
            None \<Rightarrow> False
          | Some t \<Rightarrow> real_of_int (now env 0 - t) < cooldownAfterLossMs (limits m)) \<and>
       \<not> (case lastTradeTime (state m) of
            None \<Rightarrow> False
          | Some t \<Rightarrow> real_of_int (now env 1 - t) < minTimeBetweenTradesMs (limits m)) \<and>
       real (tradesInLastHour (state (updateTradeCount env (updateDailyPnl env m))))
         \<ge> maxTradesPerHour (limits m) \<longrightarrow>
         canTrade env amountUsd expectedProfitUsd m =
           (Inr False, updateTradeCount env (updateDailyPnl env m))) \<and>
      (real (consecutiveLosses (state m)) < maxConsecutiveLosses (limits m) \<and>
       \<not> (case lastLossTime (state m) of
            None \<Rightarrow> False
          | Some t \<Rightarrow> real_of_int (now env 0 - t) < cooldownAfterLossMs (limits m)) \<and>
       \<not> (case lastTradeTime (state m) of
            None \<Rightarrow> False
          | Some t \<Rightarrow> real_of_int (now env 1 - t) < minTimeBetweenTradesMs (limits m)) \<and>
       real (tradesInLastHour (state (updateTradeCount env (updateDailyPnl env m))))
         < maxTradesPerHour (limits m) \<longrightarrow>
         canTrade env amountUsd expectedProfitUsd m =
           (Inr True, updateTradeCount env (updateDailyPnl env m)))) \<and>
   updateDailyPnl env m =
     m\<lparr>state := (state m)\<lparr>dailyPnl :=
          (case getDailyStats env of Inl e \<Rightarrow> dailyPnl (state m) | Inr pnl \<Rightarrow> pnl)\<rparr>\<rparr> \<and>
   updateTradeCount env (updateDailyPnl env m) =
     m\<lparr>state := (state m)\<lparr>
          dailyPnl := (case getDailyStats env of Inl e \<Rightarrow> dailyPnl (state m) | Inr pnl \<Rightarrow> pnl),
          tradesInLastHour :=
            (case getRecentTrades env 1000 of
               Inl e \<Rightarrow> tradesInLastHour (state m)
             | Inr recentTrades \<Rightarrow>
                 length (filter (\<lambda>trade. timestamp trade > now env 2 - 3600000)
                           recentTrades))\<rparr>\<rparr>"
proof -
  have a: "canTrade env amountUsd expectedProfitUsd m = (Inr False, m)"
    if "isKilled (state m) \<or> amountUsd > maxNotionalUsd (limits m)"
    using that by (rule canTrade_early)
  have d: "updateTradeCount env (updateDailyPnl env m) =
     m\<lparr>state := (state m)\<lparr>
          dailyPnl := (case getDailyStats env of Inl e \<Rightarrow> dailyPnl (state m) | Inr pnl \<Rightarrow> pnl),
          tradesInLastHour :=
            (case getRecentTrades env 1000 of
               Inl e \<Rightarrow> tradesInLastHour (state m)
             | Inr recentTrades \<Rightarrow>
                 length (filter (\<lambda>trade. timestamp trade > now env 2 - 3600000)
                           recentTrades))\<rparr>\<rparr>"
    by (simp add: updateTradeCount_def updateDailyPnl_def Let_def split: sum.splits)
  show ?thesis
    using a canTrade_guards [of m amountUsd env expectedProfitUsd]
      updateDailyPnl_eq [of env m] d
    by (simp split: if_splits)
qed

theorem canTrade_rejection_frame_witness:
  "canTrade (mockEnv 0 [] 0) 1000 5 (RiskManager_new 100 500)
     = (Inr False, RiskManager_new 100 500) \<and>
   canTrade (mockEnv 0 [] 1000) 50 2
      (snd (recordTrade (mockEnv 0 [] 1000) \<lparr>timestamp = 1000, actualProfitUsd = - 1\<rparr>
              (RiskManager_new 100 500)))
     = (Inr False,
        updateDailyPnl (mockEnv 0 [] 1000)
          (snd (recordTrade (mockEnv 0 [] 1000) \<lparr>timestamp = 1000, actualProfitUsd = - 1\<rparr>
                  (RiskManager_new 100 500)))) \<and>
   dailyPnl (state (snd (recordTrade (mockEnv 0 [] 1000)
                           \<lparr>timestamp = 1000, actualProfitUsd = - 1\<rparr>
                           (RiskManager_new 100 500)))) = - 1 \<and>
   dailyPnl (state (updateDailyPnl (mockEnv 0 [] 1000)
          (snd (recordTrade (mockEnv 0 [] 1000) \<lparr>timestamp = 1000, actualProfitUsd = - 1\<rparr>
                  (RiskManager_new 100 500))))) = 0 \<and>
   fst (canTrade (mockEnv 7 [\<lparr>timestamp = 900, actualProfitUsd = 7\<rparr>] 1000) 50 2
          ((RiskManager_new 100 500)
             \<lparr>limits := (limits (RiskManager_new 100 500))\<lparr>maxTradesPerHour := 1\<rparr>\<rparr>))
     = Inr False \<and>
   state (snd (canTrade (mockEnv 7 [\<lparr>timestamp = 900, actualProfitUsd = 7\<rparr>] 1000) 50 2
          ((RiskManager_new 100 500)
             \<lparr>limits := (limits (RiskManager_new 100 500))\<lparr>maxTradesPerHour := 1\<rparr>\<rparr>)))
     = (state (RiskManager_new 100 500))\<lparr>dailyPnl := 7, tradesInLastHour := 1\<rparr>"
proof -
  let ?E = "mockEnv 0 [] 1000"
  let ?M = "snd (recordTrade ?E \<lparr>timestamp = 1000, actualProfitUsd = - 1\<rparr>
                  (RiskManager_new 100 500))"
  let ?F = "mockEnv 7 [\<lparr>timestamp = 900, actualProfitUsd = 7\<rparr>] 1000"
  let ?N = "(RiskManager_new 100 500)
              \<lparr>limits := (limits (RiskManager_new 100 500))\<lparr>maxTradesPerHour := 1\<rparr>\<rparr>"
  have h0: "isKilled (state (RiskManager_new 100 500)) \<or>
            1000 > maxNotionalUsd (limits (RiskManager_new 100 500))"
    by (simp add: RiskManager_new_def)
  have M: "?M = \<lparr> state = \<lparr> isKilled = False, dailyPnl = - 1, tradesInLastHour = 0,
                 consecutiveLosses = 1, lastTradeTime = Some 1000, lastLossTime = Some 1000,
                 killReason = None \<rparr>,
               limits = limits (RiskManager_new 100 500) \<rparr>"
    by (simp add: recordTrade_def mockEnv_def RiskManager_new_def Let_def)
  have h1: "\<not> isKilled (state ?M) \<and> 50 \<le> maxNotionalUsd (limits ?M) \<and>
            \<not> \<bar>min 0 (dailyPnl (state (updateDailyPnl ?E ?M)) + 2)\<bar> > maxDailyLossUsd (limits ?M)"
    unfolding M by (simp add: updateDailyPnl_def mockEnv_def RiskManager_new_def)
  have h2: "real (consecutiveLosses (state ?M)) < maxConsecutiveLosses (limits ?M) \<and>
            (case lastLossTime (state ?M) of
               None \<Rightarrow> False
             | Some t \<Rightarrow> real_of_int (now ?E 0 - t) < cooldownAfterLossMs (limits ?M))"
    unfolding M by (simp add: mockEnv_def RiskManager_new_def)
  have h3: "\<not> isKilled (state ?N) \<and> 50 \<le> maxNotionalUsd (limits ?N) \<and>
            \<not> \<bar>min 0 (dailyPnl (state (updateDailyPnl ?F ?N)) + 2)\<bar> > maxDailyLossUsd (limits ?N)"
    by (simp add: updateDailyPnl_def mockEnv_def RiskManager_new_def)
  have h4: "real (consecutiveLosses (state ?N)) < maxConsecutiveLosses (limits ?N) \<and>
            \<not> (case lastLossTime (state ?N) of
                 None \<Rightarrow> False
               | Some t \<Rightarrow> real_of_int (now ?F 0 - t) < cooldownAfterLossMs (limits ?N)) \<and>
            \<not> (case lastTradeTime (state ?N) of
                 None \<Rightarrow> False
               | Some t \<Rightarrow> real_of_int (now ?F 1 - t) < minTimeBetweenTradesMs (limits ?N)) \<and>
            real (tradesInLastHour (state (updateTradeCount ?F (updateDailyPnl ?F ?N))))
              \<ge> maxTradesPerHour (limits ?N)"
    by (simp add: updateTradeCount_def updateDailyPnl_def mockEnv_def RiskManager_new_def Let_def)
  from canTrade_rejection_frame [of "RiskManager_new 100 500" 1000 "mockEnv 0 [] 0" 5] h0
  have a: "canTrade (mockEnv 0 [] 0) 1000 5 (RiskManager_new 100 500)
             = (Inr False, RiskManager_new 100 500)"
    by blast
  from canTrade_rejection_frame [of ?M 50 ?E 2] h1 h2
  have b: "canTrade ?E 50 2 ?M = (Inr False, updateDailyPnl ?E ?M)"
    by blast
  have c: "dailyPnl (state ?M) = - 1" unfolding M by simp
  have d: "dailyPnl (state (updateDailyPnl ?E ?M)) = 0"
    by (simp add: updateDailyPnl_def mockEnv_def)
  from canTrade_rejection_frame [of ?N 50 ?F 2] h3 h4
  have e: "canTrade ?F 50 2 ?N = (Inr False, updateTradeCount ?F (updateDailyPnl ?F ?N))"
    by blast
  have f: "state (updateTradeCount ?F (updateDailyPnl ?F ?N))
             = (state (RiskManager_new 100 500))\<lparr>dailyPnl := 7, tradesInLastHour := 1\<rparr>"
    by (simp add: updateTradeCount_def updateDailyPnl_def mockEnv_def RiskManager_new_def Let_def)
  from e have e1: "fst (canTrade ?F 50 2 ?N) = Inr False"
    and e2: "snd (canTrade ?F 50 2 ?N) = updateTradeCount ?F (updateDailyPnl ?F ?N)"
    by simp_all
  from a b c d e1 e2 f show ?thesis by (simp only: simp_thms)
qed

end
